theory Spec2Isabelle
  imports Main
begin

section \<open>Python values, exceptions and string formatting\<close>

text \<open>
  The action module \<^verbatim>\<open>config/action.d/smtp.py\<close> builds three kinds of
  notification mails (jail started, jail stopped, address banned) from
  \<^verbatim>\<open>%\<close>-templates and hands them to an SMTP session. The values that reach the
  templates are strings and integers; \<^verbatim>\<open>None\<close> is kept as the third case so
  that a value of the wrong kind can be supplied.
\<close>

datatype pyval = PStr string | PInt int | PNone

text \<open>
  Exceptions are values. The first four come from the \<^verbatim>\<open>%\<close> operator and the
  dictionary lookup behind it, the next two from the \<^verbatim>\<open>email\<close> package
  (\<^verbatim>\<open>formataddr\<close> on an address it cannot encode, \<^verbatim>\<open>as_string\<close> on a header
  it refuses to write), the others from the SMTP client library:
  \<^verbatim>\<open>SMTPOther\<close> stands for any subclass of \<^verbatim>\<open>smtplib.SMTPException\<close> that has no
  \<^verbatim>\<open>except\<close> clause of its own (such as \<^verbatim>\<open>SMTPRecipientsRefused\<close>), and
  \<^verbatim>\<open>SocketError\<close> for an exception outside that hierarchy (such as
  \<^verbatim>\<open>socket.error\<close>, which is what an unreachable host gives).
\<close>

datatype exn =
    KeyError string
  | TypeError
  | ValueError
  | FormatNotModelled
  | UnicodeEncodeError
  | HeaderParseError
  | SMTPConnectError
  | SMTPAuthenticationError
  | SMTPServerDisconnected
  | SMTPOther
  | SocketError

text \<open>\<^verbatim>\<open>isinstance(e, smtplib.SMTPException)\<close>.\<close>

fun is_SMTPException :: "exn \<Rightarrow> bool" where
  "is_SMTPException SMTPConnectError = True"
| "is_SMTPException SMTPAuthenticationError = True"
| "is_SMTPException SMTPServerDisconnected = True"
| "is_SMTPException SMTPOther = True"
| "is_SMTPException _ = False"

subsection \<open>Decimal rendering of integers\<close>

definition digit_char :: "nat \<Rightarrow> char" where
  "digit_char d = ''0123456789'' ! d"

fun show_nat :: "nat \<Rightarrow> string" where
  "show_nat n = (if n < 10 then [digit_char n]
                 else show_nat (n div 10) @ [digit_char (n mod 10)])"

declare show_nat.simps [simp del]

definition show_int :: "int \<Rightarrow> string" where
  "show_int i = (if i < 0 then CHR ''-'' # show_nat (nat (- i)) else show_nat (nat i))"

text \<open>\<^verbatim>\<open>str(v)\<close>, the conversion behind \<^verbatim>\<open>%s\<close>.\<close>

fun py_str :: "pyval \<Rightarrow> string" where
  "py_str (PStr s) = s"
| "py_str (PInt i) = show_int i"
| "py_str PNone = ''None''"

subsection \<open>The \<^verbatim>\<open>%\<close> operator with a mapping on the right\<close>

text \<open>
  \<^verbatim>\<open>template % mapping\<close> scans the template from left to right. After
  \<^verbatim>\<open>%(\<close> it reads the key up to the matching closing parenthesis (nested
  parentheses are counted), looks the key up at once (\<^verbatim>\<open>KeyError\<close> when it is
  missing) and then reads the conversion character. Of the conversions, \<^verbatim>\<open>s\<close>
  and the integer conversions \<^verbatim>\<open>i\<close> and \<^verbatim>\<open>d\<close> are modelled, which are the ones
  the templates of this module use; \<^verbatim>\<open>%%\<close> is a literal percent sign. Flags,
  widths, precisions, the other conversions and positional specifiers give
  \<^verbatim>\<open>FormatNotModelled\<close>, so the model never invents a rendering for them.
  The first failure met ends the scan, as the exception would.
\<close>

fun convert :: "char \<Rightarrow> pyval \<Rightarrow> exn + string" where
  "convert c v =
     (if c = CHR ''s'' then Inr (py_str v)
      else if c = CHR ''i'' \<or> c = CHR ''d'' then
        (case v of PInt i \<Rightarrow> Inr (show_int i) | _ \<Rightarrow> Inl TypeError)
      else Inl FormatNotModelled)"

datatype scan = Text | Percent | InKey nat string | Conversion pyval

fun format_scan :: "(string \<rightharpoonup> pyval) \<Rightarrow> scan \<Rightarrow> string \<Rightarrow> exn + string" where
  "format_scan m Text [] = Inr []"
| "format_scan m Text (c # cs) =
     (if c = CHR ''%'' then format_scan m Percent cs
      else (case format_scan m Text cs of Inl e \<Rightarrow> Inl e | Inr r \<Rightarrow> Inr (c # r)))"
| "format_scan m Percent [] = Inl ValueError"
| "format_scan m Percent (c # cs) =
     (if c = CHR ''('' then format_scan m (InKey 0 []) cs
      else if c = CHR ''%'' then
        (case format_scan m Text cs of Inl e \<Rightarrow> Inl e | Inr r \<Rightarrow> Inr (c # r))
      else Inl FormatNotModelled)"
| "format_scan m (InKey depth key) [] = Inl ValueError"
| "format_scan m (InKey depth key) (c # cs) =
     (if c = CHR '')'' then
        (case depth of
           0 \<Rightarrow> (case m (rev key) of
                   None \<Rightarrow> Inl (KeyError (rev key))
                 | Some v \<Rightarrow> format_scan m (Conversion v) cs)
         | Suc d \<Rightarrow> format_scan m (InKey d (c # key)) cs)
      else if c = CHR ''('' then format_scan m (InKey (Suc depth) (c # key)) cs
      else format_scan m (InKey depth (c # key)) cs)"
| "format_scan m (Conversion v) [] = Inl ValueError"
| "format_scan m (Conversion v) (c # cs) =
     (case convert c v of
        Inl e \<Rightarrow> Inl e
      | Inr s \<Rightarrow> (case format_scan m Text cs of Inl e \<Rightarrow> Inl e | Inr r \<Rightarrow> Inr (s @ r)))"

definition py_format :: "string \<Rightarrow> (string \<rightharpoonup> pyval) \<Rightarrow> exn + string" where
  "py_format template m = format_scan m Text template"

section \<open>The message templates\<close>

definition messages_start :: string where
  "messages_start =
     ''Hi,\<newline>\<newline>The jail %(jailname)s has been started successfully.\<newline>\<newline>Regards,\<newline>Fail2Ban''"

definition messages_stop :: string where
  "messages_stop =
     ''Hi,\<newline>\<newline>The jail %(jailname)s has been stopped.\<newline>\<newline>Regards,\<newline>Fail2Ban''"

definition ban_head :: string where
  "ban_head =
     ''Hi,\<newline>\<newline>The IP %(ip)s has just been banned for %(bantime)i seconds\<newline>by Fail2Ban after %(failures)i attempts against %(jailname)s.\<newline>''"

definition ban_tail :: string where
  "ban_tail = ''\<newline>Regards,\<newline>Fail2Ban''"

definition ban_matches :: string where
  "ban_matches = ''\<newline>Matches for this ban:\<newline>%(matches)s\<newline>''"

definition ban_ipmatches :: string where
  "ban_ipmatches = ''\<newline>Matches for %(ip)s:\<newline>%(ipmatches)s\<newline>''"

definition ban_ipjailmatches :: string where
  "ban_ipjailmatches =
     ''\<newline>Matches for %(ip)s for jail %(jailname)s:\<newline>%(ipjailmatches)s\<newline>''"

text \<open>
  \<^verbatim>\<open>messages['ban']\<close> is one dictionary that holds the head, the tail and the
  three match sections side by side.
\<close>

definition messages_ban :: "string \<rightharpoonup> string" where
  "messages_ban = map_of
     [(''head'', ban_head),
      (''tail'', ban_tail),
      (''matches'', ban_matches),
      (''ipmatches'', ban_ipmatches),
      (''ipjailmatches'', ban_ipjailmatches)]"

section \<open>The world outside the module\<close>

text \<open>
  A mail as \<^verbatim>\<open>_sendMessage\<close> assembles it: the text and the four headers it
  sets.
\<close>

record message =
  msg_text :: string
  msg_Subject :: string
  msg_From :: string
  msg_To :: string
  msg_Date :: string

type_synonym reply = "int \<times> string"

text \<open>
  What \<^verbatim>\<open>smtplib.SMTP.sendmail\<close> returns: one entry for every recipient the
  relay refused, with the relay's reply.
\<close>

type_synonym refused = "(string \<times> reply) list"

text \<open>
  Everything a call reads from outside: the host name and the jail's ban
  time at the moment of the call, the clock, what the functions of the
  \<^verbatim>\<open>email\<close> package give (the constructor \<^verbatim>\<open>MIMEText\<close>, \<^verbatim>\<open>formataddr\<close>,
  and \<^verbatim>\<open>as_string\<close>, the serialisation of a finished mail), whether the
  constructor \<^verbatim>\<open>smtplib.SMTP()\<close> gives a session object, and what the mail
  relay answers to each primitive of the SMTP client. Each of them gives an
  exception or a value.
\<close>

record world =
  gethostname :: string
  getBanTime :: int
  formatdate :: string
  MIMEText :: "string \<Rightarrow> exn + unit"
  formataddr :: "string \<times> string \<Rightarrow> exn + string"
  as_string :: "message \<Rightarrow> exn + string"
  smtplib_SMTP :: "exn + unit"
  smtp_connect :: "string \<Rightarrow> exn + reply"
  smtp_login :: "string \<Rightarrow> string \<Rightarrow> exn + reply"
  smtp_sendmail :: "string \<Rightarrow> string list \<Rightarrow> string \<Rightarrow> exn + refused"
  smtp_quit :: "exn + reply"

text \<open>
  \<^verbatim>\<open>smtplib.SMTP.quit\<close> on a session object that holds no open connection
  raises \<^verbatim>\<open>SMTPServerDisconnected\<close> without talking to the relay (the case the
  source marks \<^verbatim>\<open># Not connected\<close>); on an open session the relay decides.
  A \<^verbatim>\<open>connect\<close> that raises leaves the session without a connection.
\<close>

definition SMTP_quit :: "world \<Rightarrow> bool \<Rightarrow> exn + reply" where
  "SMTP_quit w connected = (if connected then smtp_quit w else Inl SMTPServerDisconnected)"

section \<open>CallingMap\<close>

datatype accessor = socket_gethostname | jail_actions_getBanTime

datatype cm_value = Plain pyval | Callable accessor

type_synonym CallingMap = "(string \<times> cm_value) list"

fun call :: "accessor \<Rightarrow> world \<Rightarrow> pyval" where
  "call socket_gethostname w = PStr (gethostname w)"
| "call jail_actions_getBanTime w = PInt (getBanTime w)"

text \<open>
  Modelled from the spec: the class \<^verbatim>\<open>CallingMap\<close> of
  \<^verbatim>\<open>fail2ban.server.actions\<close> is imported by the module and is not part of the
  sources at hand. The specification describes it as a mapping whose entries
  are backed either by a constant or by a zero-argument accessor function,
  exposing \<^verbatim>\<open>resolve(key) -> value\<close>, where an accessor is invoked on every
  access and its result is never stored.
\<close>

definition CallingMap_getitem :: "CallingMap \<Rightarrow> world \<Rightarrow> string \<rightharpoonup> pyval" where
  "CallingMap_getitem cm w key =
     (case map_of cm key of
        None \<Rightarrow> None
      | Some (Plain v) \<Rightarrow> Some v
      | Some (Callable f) \<Rightarrow> Some (call f w))"

text \<open>
  \<^verbatim>\<open>d.update(cm)\<close>: for every key of \<^verbatim>\<open>cm\<close>, \<^verbatim>\<open>d[key] = cm[key]\<close>. The
  dictionary is changed in place; the model returns the changed dictionary.
\<close>

definition dict_update :: "(string \<rightharpoonup> pyval) \<Rightarrow> CallingMap \<Rightarrow> world \<Rightarrow> (string \<rightharpoonup> pyval)" where
  "dict_update d cm w = foldl (\<lambda>d' key. d'(key := CallingMap_getitem cm w key)) d (map fst cm)"

text \<open>\<^verbatim>\<open>d.get(key, default)\<close>, where the key may be \<^verbatim>\<open>None\<close>.\<close>

definition dict_get :: "(string \<rightharpoonup> 'a) \<Rightarrow> string option \<Rightarrow> 'a \<Rightarrow> 'a" where
  "dict_get d key dflt =
     (case key of
        None \<Rightarrow> dflt
      | Some k \<Rightarrow> (case d k of None \<Rightarrow> dflt | Some v \<Rightarrow> v))"

section \<open>The action instance\<close>

record Jail =
  jail_name :: string

record SMTPAction =
  jail :: Jail
  name :: string
  host :: string
  user :: "string option"
  password :: "string option"
  fromname :: string
  fromaddr :: string
  toaddr :: string
  matches :: "string option"
  message_values :: CallingMap

text \<open>
  \<^verbatim>\<open>SMTPAction.__init__\<close>. The jail name is read once, here; for the host
  name and the ban time the map keeps the accessor, not a value.
\<close>

definition SMTPAction_init ::
  "Jail \<Rightarrow> string \<Rightarrow> string \<Rightarrow> string option \<Rightarrow> string option \<Rightarrow>
   string \<Rightarrow> string \<Rightarrow> string \<Rightarrow> string option \<Rightarrow> SMTPAction" where
  "SMTPAction_init jl nm hst usr pw sendername sender dest mtch =
     \<lparr> jail = jl, name = nm, host = hst, user = usr, password = pw,
       fromname = sendername, fromaddr = sender, toaddr = dest, matches = mtch,
       message_values =
         [(''jailname'', Plain (PStr (jail_name jl))),
          (''hostname'', Callable socket_gethostname),
          (''bantime'', Callable jail_actions_getBanTime)] \<rparr>"

section \<open>Sending a message\<close>

text \<open>
  What a call leaves behind, in order: the primitives of the SMTP session it
  invoked and the records it wrote to the log.
\<close>

datatype event =
    Connect string
  | Login string string
  | Sendmail string "string list" string
  | Quit
  | LogDebugConnected string int string
  | LogErrorConnecting string
  | LogErrorAuthenticate string "string option"
  | LogErrorSending string string string
  | LogWarningFailed string refused
  | LogDebugSent string
  | LogDebugDisconnected string int string

text \<open>
  The value a method hands back. None of the methods has a \<^verbatim>\<open>return\<close>
  statement, so each returns \<^verbatim>\<open>None\<close> whenever it returns; the second
  constructor is what a method returning a list of addresses would give.
\<close>

datatype retval = ReturnNone | ReturnList "string list"

record effect =
  self_after :: SMTPAction
  result :: "exn + retval"
  events :: "event list"

text \<open>A call that ends by an exception before it has left any event.\<close>

definition raise :: "SMTPAction \<Rightarrow> exn \<Rightarrow> effect" where
  "raise self e = \<lparr> self_after = self, result = Inl e, events = [] \<rparr>"

text \<open>\<^verbatim>\<open>toaddr.split(", ")\<close>.\<close>

fun split_comma_space :: "string \<Rightarrow> string \<Rightarrow> string list" where
  "split_comma_space acc [] = [rev acc]"
| "split_comma_space acc [c] = [rev (c # acc)]"
| "split_comma_space acc (c # d # cs) =
     (if c = CHR '','' \<and> d = CHR '' '' then rev acc # split_comma_space [] cs
      else split_comma_space (c # acc) (d # cs))"

definition split :: "string \<Rightarrow> string list" where
  "split s = split_comma_space [] s"

text \<open>\<^verbatim>\<open>self.user and self.password\<close>: both set and both non-empty.\<close>

definition credentials :: "SMTPAction \<Rightarrow> (string \<times> string) option" where
  "credentials self =
     (case (user self, password self) of
        (Some u, Some p) \<Rightarrow> if u \<noteq> [] \<and> p \<noteq> [] then Some (u, p) else None
      | _ \<Rightarrow> None)"

text \<open>
  The first five statements of \<^verbatim>\<open>_sendMessage\<close>, which build the mail before
  any session exists: the constructor, then the headers in the order of the
  source. An exception of \<^verbatim>\<open>MIMEText\<close> or of \<^verbatim>\<open>formataddr\<close> ends them.
\<close>

definition make_message :: "SMTPAction \<Rightarrow> world \<Rightarrow> string \<Rightarrow> string \<Rightarrow> exn + message" where
  "make_message self w subject text =
     (case MIMEText w text of
        Inl e \<Rightarrow> Inl e
      | Inr _ \<Rightarrow>
          (case formataddr w (fromname self, fromaddr self) of
             Inl e \<Rightarrow> Inl e
           | Inr sender \<Rightarrow>
               Inr \<lparr> msg_text = text, msg_Subject = subject, msg_From = sender,
                     msg_To = toaddr self, msg_Date = formatdate w \<rparr>))"

text \<open>
  The call of \<^verbatim>\<open>smtp.sendmail\<close>. Its third argument, \<^verbatim>\<open>msg.as_string()\<close>, is
  evaluated before the call; when that raises, the relay is not addressed.
\<close>

definition do_sendmail ::
  "SMTPAction \<Rightarrow> world \<Rightarrow> message \<Rightarrow> (exn + refused) \<times> event list" where
  "do_sendmail self w msg =
     (case as_string w msg of
        Inl e \<Rightarrow> (Inl e, [])
      | Inr data \<Rightarrow>
          (smtp_sendmail w (fromaddr self) (split (toaddr self)) data,
           [Sendmail (fromaddr self) (split (toaddr self)) data]))"

text \<open>
  The body of the \<^verbatim>\<open>try\<close> statement: its outcome (the exception raised or
  \<^verbatim>\<open>failed_recipients\<close>), whether the session holds a connection afterwards,
  and the events so far.
\<close>

definition try_block ::
  "SMTPAction \<Rightarrow> world \<Rightarrow> message \<Rightarrow> (exn + refused) \<times> bool \<times> event list" where
  "try_block self w msg =
     (case smtp_connect w (host self) of
        Inl e \<Rightarrow> (Inl e, False, [Connect (host self)])
      | Inr (code, resp) \<Rightarrow>
          (let ev = [Connect (host self), LogDebugConnected (host self) code resp] in
           case credentials self of
             None \<Rightarrow>
               (let (r, ev') = do_sendmail self w msg in (r, True, ev @ ev'))
           | Some (u, p) \<Rightarrow>
               (case smtp_login w u p of
                  Inl e \<Rightarrow> (Inl e, True, ev @ [Login u p])
                | Inr _ \<Rightarrow>
                    (let (r, ev') = do_sendmail self w msg
                     in (r, True, ev @ [Login u p] @ ev')))))"

text \<open>
  The \<^verbatim>\<open>except\<close> clauses, tried in the order of the source; each logs and
  raises the exception again. An exception that is no \<^verbatim>\<open>SMTPException\<close>
  meets no clause.
\<close>

definition except_clauses :: "SMTPAction \<Rightarrow> exn \<Rightarrow> event list" where
  "except_clauses self e =
     (if e = SMTPConnectError then [LogErrorConnecting (host self)]
      else if e = SMTPAuthenticationError then [LogErrorAuthenticate (host self) (user self)]
      else if is_SMTPException e then
        [LogErrorSending (host self) (fromaddr self) (toaddr self)]
      else [])"

definition else_clause :: "SMTPAction \<Rightarrow> string \<Rightarrow> refused \<Rightarrow> event list" where
  "else_clause self subject failed_recipients =
     (if failed_recipients \<noteq> [] then [LogWarningFailed (toaddr self) failed_recipients] else [])
     @ [LogDebugSent subject]"

text \<open>
  The \<^verbatim>\<open>finally\<close> clause: the exception it lets out, if any, and its events.
\<close>

definition finally_clause :: "SMTPAction \<Rightarrow> world \<Rightarrow> bool \<Rightarrow> exn option \<times> event list" where
  "finally_clause self w connected =
     (case SMTP_quit w connected of
        Inl e \<Rightarrow> (if e = SMTPServerDisconnected then (None, [Quit]) else (Some e, [Quit]))
      | Inr (code, resp) \<Rightarrow> (None, [Quit, LogDebugDisconnected (host self) code resp]))"

text \<open>
  \<^verbatim>\<open>SMTPAction._sendMessage\<close>. When building the mail or making the
  session object raises, the method is left before the \<^verbatim>\<open>try\<close> statement
  is entered. An exception leaving the \<^verbatim>\<open>finally\<close> clause replaces the one
  that was on its way out of the \<^verbatim>\<open>try\<close> statement.
\<close>

definition sendMessage :: "SMTPAction \<Rightarrow> world \<Rightarrow> string \<Rightarrow> string \<Rightarrow> effect" where
  "sendMessage self w subject text =
     (case make_message self w subject text of
        Inl e \<Rightarrow> raise self e
      | Inr msg \<Rightarrow>
          (case smtplib_SMTP w of
             Inl e \<Rightarrow> raise self e
           | Inr _ \<Rightarrow>
               (let (r, connected, ev) = try_block self w msg;
                    ev' = (case r of
                             Inl e \<Rightarrow> except_clauses self e
                           | Inr failed_recipients \<Rightarrow>
                               else_clause self subject failed_recipients);
                    (q, ev'') = finally_clause self w connected
                in \<lparr> self_after = self,
                     result = (case q of
                                 Some e \<Rightarrow> Inl e
                               | None \<Rightarrow>
                                   (case r of Inl e \<Rightarrow> Inl e | Inr _ \<Rightarrow> Inr ReturnNone)),
                     events = ev @ ev' @ ev'' \<rparr>)))"

section \<open>The three notifications\<close>

text \<open>
  The two arguments of the call of \<^verbatim>\<open>_sendMessage\<close> in \<^verbatim>\<open>start\<close>, evaluated
  from left to right before the call.
\<close>

definition start_args :: "SMTPAction \<Rightarrow> world \<Rightarrow> exn + string \<times> string" where
  "start_args self w =
     (case py_format ''[Fail2Ban] %(jailname)s: started on %(hostname)s''
             (CallingMap_getitem (message_values self) w) of
        Inl e \<Rightarrow> Inl e
      | Inr subject \<Rightarrow>
          (case py_format messages_start (CallingMap_getitem (message_values self) w) of
             Inl e \<Rightarrow> Inl e
           | Inr text \<Rightarrow> Inr (subject, text)))"

definition start :: "SMTPAction \<Rightarrow> world \<Rightarrow> effect" where
  "start self w =
     (case start_args self w of
        Inl e \<Rightarrow> raise self e
      | Inr (subject, text) \<Rightarrow> sendMessage self w subject text)"

definition stop_args :: "SMTPAction \<Rightarrow> world \<Rightarrow> exn + string \<times> string" where
  "stop_args self w =
     (case py_format ''[Fail2Ban] %(jailname)s: stopped on %(hostname)s''
             (CallingMap_getitem (message_values self) w) of
        Inl e \<Rightarrow> Inl e
      | Inr subject \<Rightarrow>
          (case py_format messages_stop (CallingMap_getitem (message_values self) w) of
             Inl e \<Rightarrow> Inl e
           | Inr text \<Rightarrow> Inr (subject, text)))"

definition stop :: "SMTPAction \<Rightarrow> world \<Rightarrow> effect" where
  "stop self w =
     (case stop_args self w of
        Inl e \<Rightarrow> raise self e
      | Inr (subject, text) \<Rightarrow> sendMessage self w subject text)"

text \<open>
  The local variable \<^verbatim>\<open>message\<close> of \<^verbatim>\<open>ban\<close>: head, the entry of
  \<^verbatim>\<open>messages['ban']\<close> under the configured \<^verbatim>\<open>matches\<close> (the empty string when
  there is none), tail.
\<close>

definition ban_message :: "SMTPAction \<Rightarrow> string" where
  "ban_message self =
     concat [dict_get messages_ban (Some ''head'') [],
             dict_get messages_ban (matches self) [],
             dict_get messages_ban (Some ''tail'') []]"

text \<open>
  The two arguments of the call of \<^verbatim>\<open>_sendMessage\<close> in \<^verbatim>\<open>ban\<close>, formatted
  against \<^verbatim>\<open>aInfo\<close> as it is after the update.
\<close>

definition ban_args :: "SMTPAction \<Rightarrow> (string \<rightharpoonup> pyval) \<Rightarrow> exn + string \<times> string" where
  "ban_args self aInfo =
     (case py_format ''[Fail2Ban] %(jailname)s: banned %(ip)s from %(hostname)s'' aInfo of
        Inl e \<Rightarrow> Inl e
      | Inr subject \<Rightarrow>
          (case py_format (ban_message self) aInfo of
             Inl e \<Rightarrow> Inl e
           | Inr text \<Rightarrow> Inr (subject, text)))"

text \<open>
  \<^verbatim>\<open>SMTPAction.ban\<close>. The caller's dictionary is updated in place before
  anything else happens; the pair returned holds the dictionary as the caller
  finds it afterwards.
\<close>

definition ban :: "SMTPAction \<Rightarrow> world \<Rightarrow> (string \<rightharpoonup> pyval) \<Rightarrow> (string \<rightharpoonup> pyval) \<times> effect" where
  "ban self w aInfo =
     (let aInfo' = dict_update aInfo (message_values self) w
      in (aInfo',
          case ban_args self aInfo' of
            Inl e \<Rightarrow> raise self e
          | Inr (subject, text) \<Rightarrow> sendMessage self w subject text))"

section \<open>Concrete inputs\<close>

text \<open>
  A jail called \<^verbatim>\<open>ssh\<close> reporting to two recipients; the credentials and the
  \<^verbatim>\<open>matches\<close> option are left open.
\<close>

definition example_action :: "string option \<Rightarrow> string option \<Rightarrow> string option \<Rightarrow> SMTPAction" where
  "example_action usr pw mtch =
     SMTPAction_init \<lparr> jail_name = ''ssh'' \<rparr> ''smtp'' ''localhost'' usr pw
       ''Fail2Ban'' ''fail2ban'' ''a@example.org, b@example.org'' mtch"

text \<open>
  A world whose relay gives the stated answers to \<^verbatim>\<open>connect\<close>, \<^verbatim>\<open>login\<close>,
  \<^verbatim>\<open>sendmail\<close> and \<^verbatim>\<open>quit\<close>, whatever the arguments. Its \<^verbatim>\<open>formataddr\<close>
  refuses an address with a byte outside ASCII (the top bit set); its
  \<^verbatim>\<open>as_string\<close> writes the headers and the text one after the other.
\<close>

definition example_relay ::
  "exn + reply \<Rightarrow> exn + reply \<Rightarrow> exn + refused \<Rightarrow> exn + reply \<Rightarrow> world" where
  "example_relay c l s q =
     \<lparr> gethostname = ''box'', getBanTime = 600,
       formatdate = ''Tue, 03 Nov 2026 12:00:00 -0000'',
       MIMEText = (\<lambda>t. Inr ()),
       formataddr = (\<lambda>(n, a). if list_all (\<lambda>c. \<not> digit7 c) a
                                then Inr (n @ '' <'' @ a @ ''>'')
                                else Inl UnicodeEncodeError),
       as_string = (\<lambda>m. Inr (''Subject: '' @ msg_Subject m @ ''\<newline>From: '' @ msg_From m @
                             ''\<newline>To: '' @ msg_To m @ ''\<newline>Date: '' @ msg_Date m @
                             ''\<newline>\<newline>'' @ msg_text m)),
       smtplib_SMTP = Inr (),
       smtp_connect = (\<lambda>h. c), smtp_login = (\<lambda>u p. l),
       smtp_sendmail = (\<lambda>f tos m. s), smtp_quit = q \<rparr>"

text \<open>
  The relay accepts the session and the mail, refuses the second recipient,
  and answers the final \<^verbatim>\<open>quit\<close>.
\<close>

definition example_world :: world where
  "example_world =
     example_relay (Inr (220, ''ready'')) (Inr (235, ''accepted''))
       (Inr [(''b@example.org'', (550, ''no such user''))]) (Inr (221, ''bye''))"

definition example_aInfo :: "string \<rightharpoonup> pyval" where
  "example_aInfo = [''ip'' \<mapsto> PStr ''10.0.0.5'', ''failures'' \<mapsto> PInt 3]"


text \<open>
  The event data of a ban that carries the log lines as well.
\<close>

definition example_aInfo_matches :: "string \<rightharpoonup> pyval" where
  "example_aInfo_matches =
     example_aInfo(''matches'' \<mapsto> PStr ''Nov  3 12:00:00 box sshd: Failed password'')"


section \<open>Basic facts\<close>

lemma getitem_init:
  "CallingMap_getitem (message_values (SMTPAction_init jl nm hst usr pw sn sd dest mtch)) w =
     [''jailname'' \<mapsto> PStr (jail_name jl), ''hostname'' \<mapsto> PStr (gethostname w),
      ''bantime'' \<mapsto> PInt (getBanTime w)]"
  by (rule ext) (simp add: CallingMap_getitem_def SMTPAction_init_def)

lemma dict_update_init:
  "dict_update aInfo (message_values (SMTPAction_init jl nm hst usr pw sn sd dest mtch)) w =
     aInfo(''jailname'' \<mapsto> PStr (jail_name jl), ''hostname'' \<mapsto> PStr (gethostname w),
           ''bantime'' \<mapsto> PInt (getBanTime w))"
  by (simp add: dict_update_def CallingMap_getitem_def SMTPAction_init_def)

lemma self_after_sendMessage: "self_after (sendMessage self w s t) = self"
  by (simp add: sendMessage_def raise_def Let_def split: sum.splits prod.splits)

lemma self_after_start: "self_after (start self w) = self"
  by (simp add: start_def raise_def self_after_sendMessage split: sum.splits prod.splits)

lemma self_after_stop: "self_after (stop self w) = self"
  by (simp add: stop_def raise_def self_after_sendMessage split: sum.splits prod.splits)

lemma self_after_ban: "self_after (snd (ban self w a)) = self"
  by (simp add: ban_def Let_def raise_def self_after_sendMessage split: sum.splits prod.splits)

lemma fst_ban: "fst (ban self w a) = dict_update a (message_values self) w"
  by (simp add: ban_def Let_def)

lemma matches_init: "matches (SMTPAction_init jl nm hst usr pw sn sd dest mtch) = mtch"
  by (simp add: SMTPAction_init_def)

lemma ban_message_matches: "matches s1 = matches s2 \<Longrightarrow> ban_message s1 = ban_message s2"
  by (simp add: ban_message_def)

lemma ban_args_matches:
  assumes "matches s1 = matches s2"
  shows "ban_args s1 a = ban_args s2 a"
proof -
  have same: "ban_message s1 = ban_message s2"
    using assms by (rule ban_message_matches)
  show ?thesis
    unfolding ban_args_def same by (rule refl)
qed


lemma sendMessage_no_message:
  "make_message self w subject text = Inl e \<Longrightarrow> sendMessage self w subject text = raise self e"
  by (simp add: sendMessage_def)

lemma sendMessage_no_session:
  "make_message self w subject text = Inr msg \<Longrightarrow> smtplib_SMTP w = Inl e \<Longrightarrow>
     sendMessage self w subject text = raise self e"
  by (simp add: sendMessage_def)

lemma events_sendMessage:
  assumes "make_message self w subject text = Inr msg"
    and "smtplib_SMTP w = Inr ()"
    and "try_block self w msg = (r, connected, ev)"
  shows "events (sendMessage self w subject text) =
           ev @ (case r of Inl e \<Rightarrow> except_clauses self e
                 | Inr failed \<Rightarrow> else_clause self subject failed)
              @ snd (finally_clause self w connected)"
  using assms by (simp add: sendMessage_def Let_def split: prod.splits)

lemma result_sendMessage:
  assumes "make_message self w subject text = Inr msg"
    and "smtplib_SMTP w = Inr ()"
    and "try_block self w msg = (r, connected, ev)"
  shows "result (sendMessage self w subject text) =
           (case fst (finally_clause self w connected) of
              Some e \<Rightarrow> Inl e
            | None \<Rightarrow> (case r of Inl e \<Rightarrow> Inl e | Inr _ \<Rightarrow> Inr ReturnNone))"
  using assms by (simp add: sendMessage_def Let_def split: prod.splits)


lemma fst_finally_clause:
  "fst (finally_clause self w connected) =
     (case SMTP_quit w connected of
        Inl e \<Rightarrow> if e = SMTPServerDisconnected then None else Some e
      | Inr _ \<Rightarrow> None)"
  by (simp add: finally_clause_def split: sum.splits prod.splits)



lemma try_block_connect_fails:
  "smtp_connect w (host self) = Inl e \<Longrightarrow> try_block self w msg = (Inl e, False, [Connect (host self)])"
  by (simp add: try_block_def)

lemma credentials_Some_iff:
  "credentials self = Some (u, p) \<longleftrightarrow>
     user self = Some u \<and> password self = Some p \<and> u \<noteq> [] \<and> p \<noteq> []"
  by (auto simp: credentials_def split: option.splits)

lemma credentials_None_iff:
  "credentials self = None \<longleftrightarrow>
     user self = None \<or> user self = Some [] \<or> password self = None \<or> password self = Some []"
  by (auto simp: credentials_def split: option.splits)

lemma Login_in_try_block:
  assumes "try_block self w msg = (r, connected, ev)"
  shows "Login u p \<in> set ev \<longleftrightarrow>
           (\<exists>rep. smtp_connect w (host self) = Inr rep) \<and> credentials self = Some (u, p)"
  using assms
  by (auto simp: try_block_def do_sendmail_def Let_def
           split: sum.splits option.splits prod.splits)

lemma Login_notin_clauses:
  "Login u p \<notin> set (except_clauses self e)"
  "Login u p \<notin> set (else_clause self subject failed)"
  "Login u p \<notin> set (snd (finally_clause self w connected))"
  by (simp_all add: except_clauses_def else_clause_def finally_clause_def
        split: sum.splits prod.splits)

lemma Login_in_events:
  "Login u p \<in> set (events (sendMessage self w subject text)) \<longleftrightarrow>
     (\<exists>msg. make_message self w subject text = Inr msg) \<and> smtplib_SMTP w = Inr ()
     \<and> (\<exists>rep. smtp_connect w (host self) = Inr rep) \<and> credentials self = Some (u, p)"
proof (cases "make_message self w subject text")
  case (Inl e)
  then show ?thesis
    by (simp add: sendMessage_no_message raise_def)
next
  case msg: (Inr msg)
  show ?thesis
  proof (cases "smtplib_SMTP w")
    case (Inl e)
    then show ?thesis
      by (simp add: sendMessage_no_session [OF msg] raise_def)
  next
    case (Inr x)
    then have ses: "smtplib_SMTP w = Inr ()"
      by simp
    obtain r connected ev where tb: "try_block self w msg = (r, connected, ev)"
      by (cases "try_block self w msg") auto
    show ?thesis
      using Login_in_try_block [OF tb, of u p] Login_notin_clauses
      by (simp add: msg ses events_sendMessage [OF msg ses tb] split: sum.splits)
  qed
qed

lemma try_block_login_irrelevant:
  "credentials self = None \<Longrightarrow>
     try_block self (w\<lparr>smtp_login := f\<rparr>) msg = try_block self w msg"
  by (simp add: try_block_def do_sendmail_def Let_def split: sum.splits prod.splits)

lemma sendMessage_login_irrelevant:
  assumes "credentials self = None"
  shows "sendMessage self (w\<lparr>smtp_login := f\<rparr>) subject text = sendMessage self w subject text"
proof -
  have msg: "make_message self (w\<lparr>smtp_login := f\<rparr>) subject text = make_message self w subject text"
    by (simp add: make_message_def split: sum.splits)
  have fin: "finally_clause self (w\<lparr>smtp_login := f\<rparr>) c = finally_clause self w c" for c
    by (simp add: finally_clause_def SMTP_quit_def)
  have ses: "smtplib_SMTP (w\<lparr>smtp_login := f\<rparr>) = smtplib_SMTP w"
    by simp
  show ?thesis
    unfolding sendMessage_def msg ses fin try_block_login_irrelevant [OF assms] by (rule refl)
qed

lemma try_block_accepted:
  assumes "smtp_connect w (host self) = Inr rep"
    and "\<forall>u p. credentials self = Some (u, p) \<longrightarrow> (\<exists>rep'. smtp_login w u p = Inr rep')"
    and "as_string w msg = Inr data"
    and "smtp_sendmail w (fromaddr self) (split (toaddr self)) data = Inr failed"
  shows "\<exists>ev. try_block self w msg = (Inr failed, True, ev)
           \<and> Sendmail (fromaddr self) (split (toaddr self)) data \<in> set ev
           \<and> (\<forall>t f. LogWarningFailed t f \<notin> set ev) \<and> (\<forall>s. LogDebugSent s \<notin> set ev)"
  using assms
  by (cases "credentials self")
     (auto simp: try_block_def do_sendmail_def Let_def split: sum.splits prod.splits)

lemma connect_failure_events:
  assumes "make_message self w subject text = Inr msg"
    and "smtplib_SMTP w = Inr ()"
    and "smtp_connect w (host self) = Inl e"
  shows "result (sendMessage self w subject text) = Inl e"
    and "events (sendMessage self w subject text) =
           Connect (host self) # except_clauses self e @ [Quit]"
proof -
  note tb = try_block_connect_fails [OF assms(3), of msg]
  show "result (sendMessage self w subject text) = Inl e"
    by (simp add: result_sendMessage [OF assms(1,2) tb] finally_clause_def SMTP_quit_def)
  show "events (sendMessage self w subject text) =
           Connect (host self) # except_clauses self e @ [Quit]"
    by (simp add: events_sendMessage [OF assms(1,2) tb] finally_clause_def SMTP_quit_def)
qed

text \<open>
  The mail of the example instance in the example worlds, and what the
  example worlds give for it.
\<close>

lemma make_message_example:
  "make_message (example_action usr pw mtch) (example_relay c l s q) subject text =
     Inr \<lparr> msg_text = text, msg_Subject = subject, msg_From = ''Fail2Ban <fail2ban>'',
           msg_To = ''a@example.org, b@example.org'',
           msg_Date = ''Tue, 03 Nov 2026 12:00:00 -0000'' \<rparr>"
  by (simp add: make_message_def example_relay_def example_action_def SMTPAction_init_def)

lemma fields_example:
  "host (example_action usr pw mtch) = ''localhost''"
  "user (example_action usr pw mtch) = usr"
  "password (example_action usr pw mtch) = pw"
  "fromaddr (example_action usr pw mtch) = ''fail2ban''"
  "toaddr (example_action usr pw mtch) = ''a@example.org, b@example.org''"
  by (simp_all add: example_action_def SMTPAction_init_def)

lemma relay_example:
  "smtp_connect (example_relay c l s q) h = c"
  "smtp_login (example_relay c l s q) u p = l"
  "smtp_sendmail (example_relay c l s q) f tos data = s"
  "smtp_quit (example_relay c l s q) = q"
  "smtplib_SMTP (example_relay c l s q) = Inr ()"
  "\<exists>data. as_string (example_relay c l s q) m = Inr data"
  by (simp_all add: example_relay_def)

text \<open>
  The section of the ban message for every mode other than \<^verbatim>\<open>head\<close> and
  \<^verbatim>\<open>tail\<close>: the template of a documented mode, nothing for an unset or any
  other mode. The rendered message for each of the three documented modes
  follows.
\<close>

lemma ban_message_sections:
  assumes "mtch \<noteq> Some ''head''" and "mtch \<noteq> Some ''tail''"
  shows "ban_message (SMTPAction_init jl nm hst usr pw sn sd dest mtch) =
           ban_head @
           (if mtch = Some ''matches'' then ban_matches
            else if mtch = Some ''ipmatches'' then ban_ipmatches
            else if mtch = Some ''ipjailmatches'' then ban_ipjailmatches
            else []) @
           ban_tail"
  using assms
  by (cases mtch) (simp_all add: ban_message_def dict_get_def messages_ban_def matches_init)

lemma ban_args_section_rendered:
  assumes "aInfo ''ip'' = Some ipv" and "aInfo ''failures'' = Some (PInt n)"
    and "aInfo ''matches'' = Some mv" and "aInfo ''ipmatches'' = Some imv"
    and "aInfo ''ipjailmatches'' = Some ijmv"
  shows "ban_args (SMTPAction_init jl nm hst usr pw sn sd dest (Some ''matches''))
           (fst (ban (SMTPAction_init jl nm hst usr pw sn sd dest (Some ''matches'')) w aInfo)) =
     Inr (''[Fail2Ban] '' @ jail_name jl @ '': banned '' @ py_str ipv @ '' from '' @ gethostname w,
          ''Hi,\<newline>\<newline>The IP '' @ py_str ipv @ '' has just been banned for '' @
          show_int (getBanTime w) @ '' seconds\<newline>by Fail2Ban after '' @ show_int n @
          '' attempts against '' @ jail_name jl @ ''.\<newline>\<newline>Matches for this ban:\<newline>'' @
          py_str mv @ ''\<newline>\<newline>Regards,\<newline>Fail2Ban'')"
    and "ban_args (SMTPAction_init jl nm hst usr pw sn sd dest (Some ''ipmatches''))
           (fst (ban (SMTPAction_init jl nm hst usr pw sn sd dest (Some ''ipmatches'')) w aInfo)) =
     Inr (''[Fail2Ban] '' @ jail_name jl @ '': banned '' @ py_str ipv @ '' from '' @ gethostname w,
          ''Hi,\<newline>\<newline>The IP '' @ py_str ipv @ '' has just been banned for '' @
          show_int (getBanTime w) @ '' seconds\<newline>by Fail2Ban after '' @ show_int n @
          '' attempts against '' @ jail_name jl @ ''.\<newline>\<newline>Matches for '' @ py_str ipv @
          '':\<newline>'' @ py_str imv @ ''\<newline>\<newline>Regards,\<newline>Fail2Ban'')"
    and "ban_args (SMTPAction_init jl nm hst usr pw sn sd dest (Some ''ipjailmatches''))
           (fst (ban (SMTPAction_init jl nm hst usr pw sn sd dest (Some ''ipjailmatches'')) w aInfo)) =
     Inr (''[Fail2Ban] '' @ jail_name jl @ '': banned '' @ py_str ipv @ '' from '' @ gethostname w,
          ''Hi,\<newline>\<newline>The IP '' @ py_str ipv @ '' has just been banned for '' @
          show_int (getBanTime w) @ '' seconds\<newline>by Fail2Ban after '' @ show_int n @
          '' attempts against '' @ jail_name jl @ ''.\<newline>\<newline>Matches for '' @ py_str ipv @
          '' for jail '' @ jail_name jl @ '':\<newline>'' @ py_str ijmv @
          ''\<newline>\<newline>Regards,\<newline>Fail2Ban'')"
  using assms
  by (simp_all add: ban_args_def ban_message_sections fst_ban dict_update_init py_format_def
        ban_head_def ban_tail_def ban_matches_def ban_ipmatches_def ban_ipjailmatches_def)

section \<open>Start and stop notifications\<close>

text \<open>
  Claim C10. Composing the start and the stop notification cannot fail: for
  an instance built by the constructor, in any world, both format operations
  of \<^verbatim>\<open>start\<close> and of \<^verbatim>\<open>stop\<close> succeed. The subject is the fixed text with
  the configured jail name and the host name of the moment in it, and the
  body is the template with its one placeholder replaced by the jail name.
\<close>

theorem lifecycle_args_total:
  "start_args (SMTPAction_init jl nm hst usr pw sn sd dest mtch) w =
     Inr (''[Fail2Ban] '' @ jail_name jl @ '': started on '' @ gethostname w,
          ''Hi,\<newline>\<newline>The jail '' @ jail_name jl @
          '' has been started successfully.\<newline>\<newline>Regards,\<newline>Fail2Ban'')
   \<and> stop_args (SMTPAction_init jl nm hst usr pw sn sd dest mtch) w =
     Inr (''[Fail2Ban] '' @ jail_name jl @ '': stopped on '' @ gethostname w,
          ''Hi,\<newline>\<newline>The jail '' @ jail_name jl @
          '' has been stopped.\<newline>\<newline>Regards,\<newline>Fail2Ban'')"
  by (simp add: start_args_def stop_args_def getitem_init py_format_def
        messages_start_def messages_stop_def)

section \<open>Ban notifications\<close>

text \<open>
  Claim C1 at the mode \<^verbatim>\<open>head\<close>, which is none of the three documented
  modes. The section between head and tail is not empty: the lookup in
  \<^verbatim>\<open>messages['ban']\<close> finds the head template itself, and the mail carries
  the head twice.
\<close>

theorem ban_matches_head_repeats_head:
  "ban_message (example_action None None (Some ''head'')) = ban_head @ ban_head @ ban_tail
   \<and> ban_args (example_action None None (Some ''head''))
        (fst (ban (example_action None None (Some ''head'')) example_world example_aInfo)) =
      Inr (''[Fail2Ban] ssh: banned 10.0.0.5 from box'',
           ''Hi,\<newline>\<newline>The IP 10.0.0.5 has just been banned for 600 seconds\<newline>by Fail2Ban after 3 attempts against ssh.\<newline>Hi,\<newline>\<newline>The IP 10.0.0.5 has just been banned for 600 seconds\<newline>by Fail2Ban after 3 attempts against ssh.\<newline>\<newline>Regards,\<newline>Fail2Ban'')"
proof -
  have msg: "ban_message (example_action None None (Some ''head'')) = ban_head @ ban_head @ ban_tail"
    by (simp add: ban_message_def dict_get_def messages_ban_def example_action_def matches_init)
  have digits: "show_int 600 = ''600''" "show_int 3 = ''3''"
    by (simp_all add: show_int_def show_nat.simps digit_char_def)
  have "ban_args (example_action None None (Some ''head''))
        (fst (ban (example_action None None (Some ''head'')) example_world example_aInfo)) =
      Inr (''[Fail2Ban] ssh: banned 10.0.0.5 from box'',
           ''Hi,\<newline>\<newline>The IP 10.0.0.5 has just been banned for 600 seconds\<newline>by Fail2Ban after 3 attempts against ssh.\<newline>Hi,\<newline>\<newline>The IP 10.0.0.5 has just been banned for 600 seconds\<newline>by Fail2Ban after 3 attempts against ssh.\<newline>\<newline>Regards,\<newline>Fail2Ban'')"
    unfolding ban_args_def msg
    by (simp add: fst_ban example_action_def dict_update_init example_aInfo_def
          example_world_def example_relay_def py_format_def ban_head_def ban_tail_def digits)
  with msg show ?thesis by (rule conjI)
qed

text \<open>
  Claim C4. After the merge in \<^verbatim>\<open>ban\<close>, the keys \<^verbatim>\<open>jailname\<close>,
  \<^verbatim>\<open>hostname\<close> and \<^verbatim>\<open>bantime\<close> hold the values of the instance's
  \<^verbatim>\<open>message_values\<close> (the jail name, the host name and ban time of the
  moment), whatever the caller had stored under them; every other key holds
  what the caller supplied. The subject and the body are formatted against
  this merged dictionary.
\<close>

theorem ban_merges_context_last:
  "fst (ban (SMTPAction_init jl nm hst usr pw sn sd dest mtch) w aInfo) ''jailname'' = Some (PStr (jail_name jl))
  \<and> fst (ban (SMTPAction_init jl nm hst usr pw sn sd dest mtch) w aInfo) ''hostname'' = Some (PStr (gethostname w))
  \<and> fst (ban (SMTPAction_init jl nm hst usr pw sn sd dest mtch) w aInfo) ''bantime'' = Some (PInt (getBanTime w))
  \<and> (\<forall>key. key \<notin> {''jailname'', ''hostname'', ''bantime''} \<longrightarrow>
        fst (ban (SMTPAction_init jl nm hst usr pw sn sd dest mtch) w aInfo) key = aInfo key)
  \<and> snd (ban (SMTPAction_init jl nm hst usr pw sn sd dest mtch) w aInfo) =
      (case ban_args (SMTPAction_init jl nm hst usr pw sn sd dest mtch)
              (fst (ban (SMTPAction_init jl nm hst usr pw sn sd dest mtch) w aInfo)) of
         Inl e \<Rightarrow> raise (SMTPAction_init jl nm hst usr pw sn sd dest mtch) e
       | Inr (subject, text) \<Rightarrow>
           sendMessage (SMTPAction_init jl nm hst usr pw sn sd dest mtch) w subject text)"
proof -
  have "snd (ban self w aInfo) =
      (case ban_args self (fst (ban self w aInfo)) of
         Inl e \<Rightarrow> raise self e
       | Inr (subject, text) \<Rightarrow> sendMessage self w subject text)" for self
    by (simp add: ban_def Let_def)
  then show ?thesis
    by (simp add: fst_ban dict_update_init)
qed

text \<open>
  The caller supplies \<^verbatim>\<open>bantime\<close> and \<^verbatim>\<open>hostname\<close> of its own besides
  \<^verbatim>\<open>ip\<close> and \<^verbatim>\<open>failures\<close>: the address survives, the two others are
  replaced.
\<close>

theorem ban_merges_context_last_witness:
  "''ip'' \<notin> {''jailname'', ''hostname'', ''bantime''}
   \<and> fst (ban (example_action None None None) example_world
             (example_aInfo(''bantime'' \<mapsto> PInt 5, ''hostname'' \<mapsto> PStr ''caller''))) ''ip''
       = Some (PStr ''10.0.0.5'')
   \<and> fst (ban (example_action None None None) example_world
             (example_aInfo(''bantime'' \<mapsto> PInt 5, ''hostname'' \<mapsto> PStr ''caller''))) ''bantime''
       = Some (PInt 600)
   \<and> fst (ban (example_action None None None) example_world
             (example_aInfo(''bantime'' \<mapsto> PInt 5, ''hostname'' \<mapsto> PStr ''caller''))) ''hostname''
       = Some (PStr ''box'')"
  using ban_merges_context_last [of "\<lparr>jail_name = ''ssh''\<rparr>" "''smtp''" "''localhost''" None None
        "''Fail2Ban''" "''fail2ban''" "''a@example.org, b@example.org''" None example_world
        "example_aInfo(''bantime'' \<mapsto> PInt 5, ''hostname'' \<mapsto> PStr ''caller'')"]
  by (simp add: example_action_def example_aInfo_def example_world_def example_relay_def)

text \<open>
  Claim C5 says that the dictionary handed to \<^verbatim>\<open>ban\<close> is unchanged when the
  call returns. It is not: the call stores the three context keys in it.
\<close>

theorem ban_changes_aInfo:
  "fst (ban (example_action None None None) example_world example_aInfo) \<noteq> example_aInfo"
proof
  assume "fst (ban (example_action None None None) example_world example_aInfo) = example_aInfo"
  then have "fst (ban (example_action None None None) example_world example_aInfo) ''jailname''
               = example_aInfo ''jailname''"
    by simp
  then show False
    by (simp add: fst_ban example_action_def dict_update_init example_aInfo_def)
qed

text \<open>
  Claim C5, amended. No notification changes a field of the instance.
  \<^verbatim>\<open>ban\<close> changes the dictionary of its caller in place, and in this way
  only: when the call is over (by return or by exception) the dictionary is
  the one supplied with \<^verbatim>\<open>jailname\<close>, \<^verbatim>\<open>hostname\<close> and \<^verbatim>\<open>bantime\<close> set
  to the resolved context values.
\<close>

theorem dispatch_frame:
  "self_after (start self w) = self
   \<and> self_after (stop self w) = self
   \<and> self_after (snd (ban self w aInfo)) = self
   \<and> fst (ban (SMTPAction_init jl nm hst usr pw sn sd dest mtch) w aInfo) =
       aInfo(''jailname'' \<mapsto> PStr (jail_name jl), ''hostname'' \<mapsto> PStr (gethostname w),
             ''bantime'' \<mapsto> PInt (getBanTime w))"
  by (simp add: self_after_start self_after_stop self_after_ban fst_ban dict_update_init)



text \<open>
  Claim C9. Composing a ban message is deterministic in the event data, the
  configured \<^verbatim>\<open>matches\<close> mode and the values the two resolvers return: two
  calls that agree on these (and on the jail) produce the same subject and
  body, or fail with the same exception, even when everything else differs
  (transport configuration, the relay's behaviour, the clock).
\<close>

theorem ban_args_deterministic:
  assumes "gethostname w1 = gethostname w2" and "getBanTime w1 = getBanTime w2"
  shows "ban_args (SMTPAction_init jl nm1 hst1 usr1 pw1 sn1 sd1 dest1 mtch)
           (fst (ban (SMTPAction_init jl nm1 hst1 usr1 pw1 sn1 sd1 dest1 mtch) w1 aInfo)) =
         ban_args (SMTPAction_init jl nm2 hst2 usr2 pw2 sn2 sd2 dest2 mtch)
           (fst (ban (SMTPAction_init jl nm2 hst2 usr2 pw2 sn2 sd2 dest2 mtch) w2 aInfo))"
proof -
  have "fst (ban (SMTPAction_init jl nm1 hst1 usr1 pw1 sn1 sd1 dest1 mtch) w1 aInfo) =
        fst (ban (SMTPAction_init jl nm2 hst2 usr2 pw2 sn2 sd2 dest2 mtch) w2 aInfo)"
    using assms by (simp add: fst_ban dict_update_init)
  then show ?thesis
    by (simp add: ban_args_matches [of "SMTPAction_init jl nm1 hst1 usr1 pw1 sn1 sd1 dest1 mtch"
          "SMTPAction_init jl nm2 hst2 usr2 pw2 sn2 sd2 dest2 mtch"] matches_init)
qed

text \<open>
  Two instances with different credentials, one facing an unreachable relay
  and one a working relay, report the same ban in the mode \<^verbatim>\<open>matches\<close>,
  with event data that carry the log line: both compose the same subject
  and body, which are written out.
\<close>

theorem ban_args_deterministic_witness:
  "gethostname example_world =
     gethostname (example_relay (Inl SocketError) (Inl SMTPOther) (Inl SMTPOther) (Inl SocketError))
   \<and> getBanTime example_world =
     getBanTime (example_relay (Inl SocketError) (Inl SMTPOther) (Inl SMTPOther) (Inl SocketError))
   \<and> ban_args (example_action (Some ''admin'') (Some ''secret'') (Some ''matches''))
        (fst (ban (example_action (Some ''admin'') (Some ''secret'') (Some ''matches''))
               (example_relay (Inl SocketError) (Inl SMTPOther) (Inl SMTPOther) (Inl SocketError))
               example_aInfo_matches)) =
      ban_args (example_action None None (Some ''matches''))
        (fst (ban (example_action None None (Some ''matches'')) example_world
               example_aInfo_matches))
   \<and> ban_args (example_action None None (Some ''matches''))
        (fst (ban (example_action None None (Some ''matches'')) example_world
               example_aInfo_matches)) =
      Inr (''[Fail2Ban] ssh: banned 10.0.0.5 from box'',
           ''Hi,\<newline>\<newline>The IP 10.0.0.5 has just been banned for 600 seconds\<newline>by Fail2Ban after 3 attempts against ssh.\<newline>\<newline>Matches for this ban:\<newline>Nov  3 12:00:00 box sshd: Failed password\<newline>\<newline>Regards,\<newline>Fail2Ban'')"
proof -
  let ?w = "example_relay (Inl SocketError) (Inl SMTPOther) (Inl SMTPOther) (Inl SocketError)"
  have h: "gethostname example_world = gethostname ?w"
    and b: "getBanTime example_world = getBanTime ?w"
    by (simp_all add: example_world_def example_relay_def)
  have same: "ban_args (example_action (Some ''admin'') (Some ''secret'') (Some ''matches''))
        (fst (ban (example_action (Some ''admin'') (Some ''secret'') (Some ''matches'')) ?w
               example_aInfo_matches)) =
      ban_args (example_action None None (Some ''matches''))
        (fst (ban (example_action None None (Some ''matches'')) example_world
               example_aInfo_matches))"
    using ban_args_deterministic [OF h b, of "\<lparr>jail_name = ''ssh''\<rparr>" "''smtp''" "''localhost''"
        None None "''Fail2Ban''" "''fail2ban''" "''a@example.org, b@example.org''"
        "Some ''matches''" example_aInfo_matches "''smtp''" "''localhost''" "Some ''admin''"
        "Some ''secret''" "''Fail2Ban''" "''fail2ban''" "''a@example.org, b@example.org''"]
    by (simp add: example_action_def)
  have digits: "show_int 600 = ''600''" "show_int 3 = ''3''"
    by (simp_all add: show_int_def show_nat.simps digit_char_def)
  have keys: "example_aInfo_matches ''ip'' = Some (PStr ''10.0.0.5'')"
    "example_aInfo_matches ''failures'' = Some (PInt 3)"
    "example_aInfo_matches ''matches'' = Some (PStr ''Nov  3 12:00:00 box sshd: Failed password'')"
    by (simp_all add: example_aInfo_matches_def example_aInfo_def)
  have msg: "ban_message (example_action None None (Some ''matches'')) =
               ban_head @ ban_matches @ ban_tail"
    by (simp add: example_action_def ban_message_sections)
  have rendered: "ban_args (example_action None None (Some ''matches''))
        (fst (ban (example_action None None (Some ''matches'')) example_world
               example_aInfo_matches)) =
      Inr (''[Fail2Ban] ssh: banned 10.0.0.5 from box'',
           ''Hi,\<newline>\<newline>The IP 10.0.0.5 has just been banned for 600 seconds\<newline>by Fail2Ban after 3 attempts against ssh.\<newline>\<newline>Matches for this ban:\<newline>Nov  3 12:00:00 box sshd: Failed password\<newline>\<newline>Regards,\<newline>Fail2Ban'')"
    unfolding ban_args_def msg
    by (simp add: fst_ban example_action_def dict_update_init keys digits
          example_world_def example_relay_def py_format_def ban_head_def ban_matches_def
          ban_tail_def)
  from h b same rendered show ?thesis by (intro conjI)
qed

section \<open>Transport\<close>




text \<open>
  Claim C3 says that the call returns the list of the refused addresses.
  Against a relay that refuses \<^verbatim>\<open>b@example.org\<close>, one of two recipients, the
  call returns \<^verbatim>\<open>None\<close>.
\<close>

theorem sendMessage_returns_no_list:
  "result (sendMessage (example_action None None None) example_world ''subject'' ''text'') = Inr ReturnNone
   \<and> result (sendMessage (example_action None None None) example_world ''subject'' ''text'')
       \<noteq> Inr (ReturnList [''b@example.org''])"
  by (simp add: sendMessage_def make_message_def try_block_def example_world_def
        example_relay_def example_action_def SMTPAction_init_def credentials_def
        do_sendmail_def finally_clause_def SMTP_quit_def Let_def)

text \<open>
  Claim C3, amended. When the mail is built and serialised, the session
  object is made and the session opened, the authentication (if configured) succeeds, the relay accepts the
  mail while refusing some of the recipients, and the teardown does not fail
  other than by the session being disconnected already, then
  \<^verbatim>\<open>_sendMessage\<close> does not raise and returns \<^verbatim>\<open>None\<close>. The mail was
  submitted to the recipient string split at \<^verbatim>\<open>", "\<close>; the refused
  recipients appear in a warning record, written exactly when there are any,
  and the success record is written.
\<close>

theorem partial_rejection_logged:
  assumes "make_message self w subject text = Inr msg"
    and "smtplib_SMTP w = Inr ()"
    and "smtp_connect w (host self) = Inr rep"
    and "\<forall>u p. credentials self = Some (u, p) \<longrightarrow> (\<exists>rep'. smtp_login w u p = Inr rep')"
    and "as_string w msg = Inr data"
    and "smtp_sendmail w (fromaddr self) (split (toaddr self)) data = Inr failed"
    and "\<forall>e. smtp_quit w = Inl e \<longrightarrow> e = SMTPServerDisconnected"
  shows "result (sendMessage self w subject text) = Inr ReturnNone
       \<and> Sendmail (fromaddr self) (split (toaddr self)) data
           \<in> set (events (sendMessage self w subject text))
       \<and> (LogWarningFailed (toaddr self) failed \<in> set (events (sendMessage self w subject text))
            \<longleftrightarrow> failed \<noteq> [])
       \<and> LogDebugSent subject \<in> set (events (sendMessage self w subject text))"
proof -
  obtain ev where tb: "try_block self w msg = (Inr failed, True, ev)"
    and sent: "Sendmail (fromaddr self) (split (toaddr self)) data \<in> set ev"
    and nowarn: "\<forall>t f. LogWarningFailed t f \<notin> set ev"
    using try_block_accepted [OF assms(3-6)] by blast
  have quit: "fst (finally_clause self w True) = None"
    using assms(7) by (auto simp: fst_finally_clause SMTP_quit_def split: sum.splits)
  have nowarn': "LogWarningFailed (toaddr self) failed \<notin> set (snd (finally_clause self w True))"
    by (simp add: finally_clause_def split: sum.splits prod.splits)
  show ?thesis
    using sent nowarn nowarn' quit
    by (simp add: result_sendMessage [OF assms(1,2) tb] events_sendMessage [OF assms(1,2) tb]
          else_clause_def)
qed

text \<open>
  The relay refusing \<^verbatim>\<open>b@example.org\<close> again: no exception, the mail went to
  both recipients, and the warning names the refused one.
\<close>

theorem partial_rejection_logged_witness:
  "result (sendMessage (example_action None None None) example_world ''subject'' ''text'')
     = Inr ReturnNone
   \<and> Sendmail ''fail2ban'' [''a@example.org'', ''b@example.org'']
        ''Subject: subject\<newline>From: Fail2Ban <fail2ban>\<newline>To: a@example.org, b@example.org\<newline>Date: Tue, 03 Nov 2026 12:00:00 -0000\<newline>\<newline>text''
        \<in> set (events (sendMessage (example_action None None None) example_world ''subject'' ''text''))
   \<and> LogWarningFailed ''a@example.org, b@example.org'' [(''b@example.org'', (550, ''no such user''))]
        \<in> set (events (sendMessage (example_action None None None) example_world ''subject'' ''text''))"
proof -
  let ?A = "example_action None None None"
  let ?m = "\<lparr> msg_text = ''text'', msg_Subject = ''subject'', msg_From = ''Fail2Ban <fail2ban>'',
              msg_To = ''a@example.org, b@example.org'',
              msg_Date = ''Tue, 03 Nov 2026 12:00:00 -0000'' \<rparr>"
  let ?data = "''Subject: subject\<newline>From: Fail2Ban <fail2ban>\<newline>To: a@example.org, b@example.org\<newline>Date: Tue, 03 Nov 2026 12:00:00 -0000\<newline>\<newline>text''"
  have m: "make_message ?A example_world ''subject'' ''text'' = Inr ?m"
    unfolding example_world_def by (rule make_message_example)
  have c: "smtp_connect example_world (host ?A) = Inr (220, ''ready'')"
    and q: "smtp_quit example_world = Inr (221, ''bye'')"
    and d: "as_string example_world ?m = Inr ?data"
    and s: "smtp_sendmail example_world (fromaddr ?A) (split (toaddr ?A)) ?data
            = Inr [(''b@example.org'', (550, ''no such user''))]"
    by (simp_all add: example_world_def example_relay_def)
  have ses: "smtplib_SMTP example_world = Inr ()"
    by (simp add: example_world_def example_relay_def)
  have cr: "credentials ?A = None"
    by (simp add: credentials_def example_action_def SMTPAction_init_def)
  have l: "\<forall>u p. credentials ?A = Some (u, p) \<longrightarrow> (\<exists>rep'. smtp_login example_world u p = Inr rep')"
    by (simp add: cr)
  have q': "\<forall>e. smtp_quit example_world = Inl e \<longrightarrow> e = SMTPServerDisconnected"
    by (simp add: q)
  have sp: "split ''a@example.org, b@example.org'' = [''a@example.org'', ''b@example.org'']"
    by (simp add: split_def)
  show ?thesis
    using partial_rejection_logged [OF m ses c l d s q'] by (simp add: fields_example sp)
qed

text \<open>
  Claim C6 at an unreachable host. The \<^verbatim>\<open>connect\<close> of a session made by
  \<^verbatim>\<open>smtplib.SMTP()\<close> fails with a socket error then; no \<^verbatim>\<open>except\<close> clause
  of \<^verbatim>\<open>_sendMessage\<close> is for it. The exception reaches the caller and the
  teardown adds no second one, but nothing is logged: the events are the
  \<^verbatim>\<open>connect\<close> and the \<^verbatim>\<open>quit\<close>, with no record naming the host between
  them.
\<close>

theorem unreachable_host_not_logged:
  "result (sendMessage (example_action None None None)
        (example_relay (Inl SocketError) (Inr (235, ''accepted'')) (Inr []) (Inr (221, ''bye'')))
        ''subject'' ''text'') = Inl SocketError
   \<and> events (sendMessage (example_action None None None)
        (example_relay (Inl SocketError) (Inr (235, ''accepted'')) (Inr []) (Inr (221, ''bye'')))
        ''subject'' ''text'') = [Connect ''localhost'', Quit]"
  using connect_failure_events
    [OF make_message_example [of None None None "Inl SocketError" "Inr (235, ''accepted'')"
          "Inr []" "Inr (221, ''bye'')" "''subject''" "''text''"],
     OF relay_example(5), of SocketError]
  by (simp add: relay_example fields_example except_clauses_def)

text \<open>
  Claim C7. Once the mail is built, the session object made and the session
  opened, \<^verbatim>\<open>login\<close> is called with a user and a password exactly when these are the configured
  ones and both are non-empty. When either is missing or empty, \<^verbatim>\<open>login\<close>
  is not called on any path, and what \<^verbatim>\<open>login\<close> would have answered has no
  influence on the call: no failure of the authentication step can occur.
\<close>

theorem login_guard:
  "(make_message self w subject text = Inr msg \<and> smtplib_SMTP w = Inr ()
      \<and> smtp_connect w (host self) = Inr rep \<longrightarrow>
      (Login u p \<in> set (events (sendMessage self w subject text))
        \<longleftrightarrow> user self = Some u \<and> password self = Some p \<and> u \<noteq> [] \<and> p \<noteq> []))
   \<and> ((user self = None \<or> user self = Some [] \<or> password self = None \<or> password self = Some [])
        \<longrightarrow> (\<forall>u' p'. Login u' p' \<notin> set (events (sendMessage self w subject text)))
          \<and> sendMessage self (w\<lparr>smtp_login := f\<rparr>) subject text = sendMessage self w subject text)"
proof (intro conjI impI)
  assume "make_message self w subject text = Inr msg \<and> smtplib_SMTP w = Inr ()
      \<and> smtp_connect w (host self) = Inr rep"
  then show "Login u p \<in> set (events (sendMessage self w subject text))
        \<longleftrightarrow> user self = Some u \<and> password self = Some p \<and> u \<noteq> [] \<and> p \<noteq> []"
    by (simp add: Login_in_events credentials_Some_iff)
next
  assume "user self = None \<or> user self = Some [] \<or> password self = None \<or> password self = Some []"
  then have none: "credentials self = None"
    by (simp add: credentials_None_iff)
  then show "\<forall>u' p'. Login u' p' \<notin> set (events (sendMessage self w subject text))"
    by (simp add: Login_in_events)
  from none show "sendMessage self (w\<lparr>smtp_login := f\<rparr>) subject text = sendMessage self w subject text"
    by (rule sendMessage_login_irrelevant)
qed

text \<open>
  With both credentials configured the relay is asked to authenticate; with
  only the user configured it is not, even against a relay that would reject
  every \<^verbatim>\<open>login\<close>.
\<close>

theorem login_guard_witness:
  "Login ''admin'' ''secret''
        \<in> set (events (sendMessage (example_action (Some ''admin'') (Some ''secret'') None)
                    example_world ''subject'' ''text''))
   \<and> password (example_action (Some ''admin'') None None) = None
   \<and> (\<forall>u p. Login u p
        \<notin> set (events (sendMessage (example_action (Some ''admin'') None None)
                    example_world ''subject'' ''text'')))
   \<and> sendMessage (example_action (Some ''admin'') None None)
        (example_world\<lparr>smtp_login := \<lambda>u p. Inl SMTPAuthenticationError\<rparr>) ''subject'' ''text''
      = sendMessage (example_action (Some ''admin'') None None) example_world ''subject'' ''text''"
proof -
  let ?m = "\<lparr> msg_text = ''text'', msg_Subject = ''subject'', msg_From = ''Fail2Ban <fail2ban>'',
              msg_To = ''a@example.org, b@example.org'',
              msg_Date = ''Tue, 03 Nov 2026 12:00:00 -0000'' \<rparr>"
  have m: "make_message (example_action (Some ''admin'') (Some ''secret'') None) example_world
             ''subject'' ''text'' = Inr ?m"
    unfolding example_world_def by (rule make_message_example)
  have c: "smtp_connect example_world h = Inr (220, ''ready'')" for h
    by (simp add: example_world_def example_relay_def)
  have ses: "smtplib_SMTP example_world = Inr ()"
    by (simp add: example_world_def example_relay_def)
  show ?thesis
    using login_guard [of "example_action (Some ''admin'') (Some ''secret'') None" example_world
                "''subject''" "''text''" ?m "(220, ''ready'')" "''admin''" "''secret''"]
          login_guard [of "example_action (Some ''admin'') None None" example_world
                "''subject''" "''text''" ?m "(220, ''ready'')" "''admin''" "''secret''"
                "\<lambda>u p. Inl SMTPAuthenticationError"]
    by (simp add: m c ses fields_example)
qed

end
